theory Spec2Isabelle
  imports Main "HOL-Library.Word"
begin

section \<open>Common Go values\<close>

text \<open>
  A Go \<^verbatim>\<open>error\<close> value is \<open>error option\<close>: \<open>None\<close> is \<^verbatim>\<open>nil\<close>.
  \<open>ErrStoreInvalidState\<close> is the package variable of \<^verbatim>\<open>state/sqldb.go\<close>,
  \<open>ErrNotExist\<close> stands for the errors on which \<^verbatim>\<open>os.IsNotExist\<close> answers true,
  \<open>raft_ErrNotLeader\<close> and \<open>ErrNotLeader\<close> are the two not-leader values the endpoint
  compares and returns, and \<open>Errorf\<close> carries the text of any other error
  (\<^verbatim>\<open>fmt.Errorf\<close>, or an error of the engine or of the operating system).
\<close>

datatype error =
    ErrStoreInvalidState
  | ErrNotExist
  | raft_ErrNotLeader
  | ErrNotLeader
  | Errorf string

definition os_IsNotExist :: "error \<Rightarrow> bool" where
  "os_IsNotExist err = (err = ErrNotExist)"

text \<open>A call either returns or panics (with the panic's message).\<close>

datatype 'a go = Returns 'a | Panics string

section \<open>Peer directory: \<^verbatim>\<open>agent/consul/server_lookup.go\<close>\<close>

text \<open>
  Of \<^verbatim>\<open>metadata.Server\<close> the directory reads the identifier and the printed form of
  the address (\<^verbatim>\<open>server.Addr.String()\<close>); \<open>Addr\<close> holds that printed form. The
  two Go maps are partial functions. The lock is not modelled: every operation holds it
  from entry to return, so each is one atomic step.
\<close>

record server =
  ID :: string
  Addr :: string

record ServerLookup =
  addressToServer :: "string \<rightharpoonup> server"
  idToServer :: "string \<rightharpoonup> server"

definition NewServerLookup :: ServerLookup where
  "NewServerLookup = \<lparr>addressToServer = Map.empty, idToServer = Map.empty\<rparr>"

definition AddServer :: "ServerLookup \<Rightarrow> server \<Rightarrow> ServerLookup" where
  "AddServer sl srv =
     sl\<lparr>addressToServer := (addressToServer sl)(Addr srv \<mapsto> srv),
        idToServer := (idToServer sl)(ID srv \<mapsto> srv)\<rparr>"

definition RemoveServer :: "ServerLookup \<Rightarrow> server \<Rightarrow> ServerLookup" where
  "RemoveServer sl srv =
     sl\<lparr>addressToServer := (addressToServer sl)(Addr srv := None),
        idToServer := (idToServer sl)(ID srv := None)\<rparr>"

definition ServerAddr :: "ServerLookup \<Rightarrow> string \<Rightarrow> error + string" where
  "ServerAddr sl sid =
     (case idToServer sl sid of
        None \<Rightarrow> Inl (Errorf (''Could not find address for server id '' @ sid))
      | Some svr \<Rightarrow> Inr (Addr svr))"

text \<open>\<^verbatim>\<open>Server\<close> returns the stored pointer, \<^verbatim>\<open>nil\<close> (\<open>None\<close>) when the address is unknown.\<close>

definition Server :: "ServerLookup \<Rightarrow> string \<Rightarrow> server option" where
  "Server sl addr = addressToServer sl addr"

text \<open>A history of membership events, applied in order.\<close>

datatype lookup_op = Add server | Remove server

fun peer_of :: "lookup_op \<Rightarrow> server" where
  "peer_of (Add srv) = srv"
| "peer_of (Remove srv) = srv"

fun apply_op :: "ServerLookup \<Rightarrow> lookup_op \<Rightarrow> ServerLookup" where
  "apply_op sl (Add srv) = AddServer sl srv"
| "apply_op sl (Remove srv) = RemoveServer sl srv"

fun run_ops :: "ServerLookup \<Rightarrow> lookup_op list \<Rightarrow> ServerLookup" where
  "run_ops sl [] = sl"
| "run_ops sl (x # xs) = run_ops (apply_op sl x) xs"

text \<open>An event leaves the peer \<open>p\<close> alone when it adds \<open>p\<close> again or concerns a peer that
  shares neither the identifier nor the address of \<open>p\<close>.\<close>

definition spares :: "server \<Rightarrow> lookup_op \<Rightarrow> bool" where
  "spares p x = (x = Add p \<or> (ID (peer_of x) \<noteq> ID p \<and> Addr (peer_of x) \<noteq> Addr p))"

definition peer_a :: server where
  "peer_a = \<lparr>ID = ''node-a'', Addr = ''10.0.0.1:8300''\<rparr>"

definition peer_b :: server where
  "peer_b = \<lparr>ID = ''node-b'', Addr = ''10.0.0.1:8300''\<rparr>"

definition peer_c :: server where
  "peer_c = \<lparr>ID = ''node-c'', Addr = ''10.0.0.3:8300''\<rparr>"

section \<open>Wire data model: \<^verbatim>\<open>agent/structs/sqldb.go\<close>\<close>

text \<open>
  \<^verbatim>\<open>int64\<close> is a 64-bit word. A \<^verbatim>\<open>float64\<close> is carried as its 64-bit pattern: the
  code below stores and copies timings and never computes with them. The embedded
  \<^verbatim>\<open>WriteRequest\<close> of the requests is declared outside these files and read by none of
  the functions below; it is left out.
\<close>

type_synonym int64 = "64 word"
type_synonym float64 = "64 word"
type_synonym bytes = "8 word list"

text \<open>A value of a result row (\<^verbatim>\<open>interface{}\<close> in \<^verbatim>\<open>Values\<close>).\<close>

datatype scalar = Null | Integer int64 | Float float64 | Text string | Blob bytes

record Result =
  LastInsertID :: int64
  RowsAffected :: int64
  Error :: string
  Time :: float64

record Rows =
  Columns :: "string list"
  Types :: "string list"
  Values :: "scalar list list"
  Error :: string
  Time :: float64

datatype ConsistencyLevel = None_level | Weak | Strong

record SQLQueryRequest =
  Queries :: "string list"
  Timings :: bool
  Atomic :: bool
  Lvl :: ConsistencyLevel

record SQLQueryResponse =
  Rows :: "Rows list"
  Time :: float64
  Err :: "error option"

record SQLExecuteRequest =
  Queries :: "string list"
  Timings :: bool
  Atomic :: bool

record SQLExecuteResponse =
  Results :: "Result list"
  Time :: float64
  Err :: "error option"

section \<open>Replicated store: \<^verbatim>\<open>agent/consul/state/sqldb.go\<close>\<close>

text \<open>
  The pointers \<^verbatim>\<open>*sqlite.DB\<close>, \<^verbatim>\<open>*sqlite.Conn\<close> and \<^verbatim>\<open>*os.File\<close> are opaque
  handles; a field that may hold \<^verbatim>\<open>nil\<close> is an \<open>option\<close>. The two mutexes are not
  modelled: the embedding is sequential, every method runs from entry to return as one
  step. Log output is not modelled. The model follows the named file; the unnamed draft
  of it differs in a \<^verbatim>\<open>done\<close> channel and a wait group that \<^verbatim>\<open>Close\<close> handles before it
  closes the connection.
\<close>

type_synonym DB = nat
type_synonym Conn = nat

record File =
  Name :: string
  fd :: nat

record SQLDB =
  dbPath :: string
  dsn :: string
  memory :: bool
  db :: "DB option"
  dbConn :: "Conn option"
  closed :: bool

definition sqliteFile :: string where
  "sqliteFile = ''db.sqlite''"

definition numRestores :: string where
  "numRestores = ''num_restores''"

text \<open>
  Everything the store calls outside its own file: the operating system and the standard
  library (\<^verbatim>\<open>filepath.Join\<close>, \<^verbatim>\<open>os.Remove\<close>, \<^verbatim>\<open>ioutil.TempFile\<close>, \<^verbatim>\<open>os.Open\<close>,
  the methods of \<^verbatim>\<open>*os.File\<close>, \<^verbatim>\<open>io.Copy\<close> into a \<^verbatim>\<open>bytes.Buffer\<close>), the package
  \<^verbatim>\<open>state/sqlite\<close> (\<^verbatim>\<open>NewDB\<close>, \<^verbatim>\<open>DB.Connect\<close> and the methods of \<^verbatim>\<open>*Conn\<close>), and the
  counter map \<^verbatim>\<open>stats\<close>. The store's file defines none of it, so each call is a
  parameter: a function from the state of the outside world \<open>'w\<close> to the call's Go
  results and the new state of the world. A method whose receiver is the field
  \<^verbatim>\<open>s.dbConn\<close> takes the receiver as an \<open>option\<close>, since the field may be \<^verbatim>\<open>nil\<close>.
  Every call is taken to return; \<^verbatim>\<open>stats\<close> is declared in the store's file without a
  value, and \<^verbatim>\<open>stats.Add\<close>, which only the successful end of \<^verbatim>\<open>Restore\<close> reaches,
  is taken to find it initialised.
\<close>

record 'w env =
  filepath_Join :: "string \<Rightarrow> string \<Rightarrow> string"
  os_Remove :: "string \<Rightarrow> 'w \<Rightarrow> error option \<times> 'w"
  ioutil_TempFile :: "string \<Rightarrow> string \<Rightarrow> 'w \<Rightarrow> (error + File) \<times> 'w"
  os_Open :: "string \<Rightarrow> 'w \<Rightarrow> (error + File) \<times> 'w"
  File_Write :: "File \<Rightarrow> bytes \<Rightarrow> 'w \<Rightarrow> (nat \<times> error option) \<times> 'w"
  File_Close :: "File \<Rightarrow> 'w \<Rightarrow> error option \<times> 'w"
  io_Copy :: "bytes \<Rightarrow> File \<Rightarrow> 'w \<Rightarrow> (bytes \<times> nat \<times> error option) \<times> 'w"
  sqlite_NewDB :: "string \<Rightarrow> string \<Rightarrow> bool \<Rightarrow> 'w \<Rightarrow> (error + DB) \<times> 'w"
  DB_Connect :: "DB \<Rightarrow> 'w \<Rightarrow> (error + Conn) \<times> 'w"
  Conn_Close :: "Conn option \<Rightarrow> 'w \<Rightarrow> error option \<times> 'w"
  Conn_Execute :: "Conn option \<Rightarrow> string list \<Rightarrow> bool \<Rightarrow> bool \<Rightarrow> 'w
                     \<Rightarrow> (Result list \<times> error option) \<times> 'w"
  Conn_Query :: "Conn option \<Rightarrow> string list \<Rightarrow> bool \<Rightarrow> bool \<Rightarrow> 'w
                     \<Rightarrow> (Rows list \<times> error option) \<times> 'w"
  Conn_Load :: "Conn option \<Rightarrow> Conn \<Rightarrow> 'w \<Rightarrow> error option \<times> 'w"
  Conn_Backup :: "Conn option \<Rightarrow> Conn \<Rightarrow> 'w \<Rightarrow> error option \<times> 'w"
  stats_Add :: "string \<Rightarrow> int \<Rightarrow> 'w \<Rightarrow> 'w"

text \<open>
  \<^verbatim>\<open>Open\<close>. A method returns its \<^verbatim>\<open>error\<close>, the receiver as it leaves it, and the
  world. \<^verbatim>\<open>s.db\<close> is assigned before \<^verbatim>\<open>Connect\<close> is tried.
\<close>

definition Open :: "'w env \<Rightarrow> SQLDB \<Rightarrow> 'w \<Rightarrow> error option \<times> SQLDB \<times> 'w" where
  "Open E s w =
     (if closed s then (Some ErrStoreInvalidState, s, w)
      else
        (case (if \<not> memory s then
                 (case os_Remove E (dbPath s) w of
                    (Some err, w1) \<Rightarrow>
                      if \<not> os_IsNotExist err then (Inl err, w1)
                      else sqlite_NewDB E (dbPath s) (dsn s) False w1
                  | (None, w1) \<Rightarrow> sqlite_NewDB E (dbPath s) (dsn s) False w1)
               else sqlite_NewDB E (dbPath s) (dsn s) True w) of
           (Inl err, w2) \<Rightarrow> (Some err, s, w2)
         | (Inr d, w2) \<Rightarrow>
             (case DB_Connect E d w2 of
                (Inl err, w3) \<Rightarrow> (Some err, s\<lparr>db := Some d\<rparr>, w3)
              | (Inr conn, w3) \<Rightarrow> (None, s\<lparr>db := Some d, dbConn := Some conn\<rparr>, w3))))"

text \<open>
  \<^verbatim>\<open>NewSQLDB\<close> fills in \<^verbatim>\<open>dbPath\<close> and \<^verbatim>\<open>logger\<close> only: every other field has Go's
  zero value. On an error of \<^verbatim>\<open>Open\<close> it returns \<^verbatim>\<open>nil\<close> and the error.
\<close>

definition NewSQLDB :: "'w env \<Rightarrow> string \<Rightarrow> string \<Rightarrow> bool \<Rightarrow> 'w \<Rightarrow> (error + SQLDB) \<times> 'w" where
  "NewSQLDB E dir dsn_arg memory_arg w =
     (let sqldb = \<lparr>dbPath = filepath_Join E dir sqliteFile, dsn = '''', memory = False,
                    db = None, dbConn = None, closed = False\<rparr>
      in case Open E sqldb w of
           (Some err, s', w') \<Rightarrow> (Inl err, w')
         | (None, s', w') \<Rightarrow> (Inr s', w'))"

text \<open>\<^verbatim>\<open>Close\<close>: the deferred function sets \<^verbatim>\<open>closed\<close> on both ways out past the first test.\<close>

definition Close :: "'w env \<Rightarrow> bool \<Rightarrow> SQLDB \<Rightarrow> 'w \<Rightarrow> error option \<times> SQLDB \<times> 'w" where
  "Close E wait s w =
     (if closed s then (None, s, w)
      else
        (case Conn_Close E (dbConn s) w of
           (Some err, w1) \<Rightarrow> (Some err, s\<lparr>closed := True\<rparr>, w1)
         | (None, w1) \<Rightarrow> (None, s\<lparr>dbConn := None, db := None, closed := True\<rparr>, w1)))"

definition Execute :: "'w env \<Rightarrow> SQLDB \<Rightarrow> string list \<Rightarrow> bool \<Rightarrow> 'w \<Rightarrow> SQLExecuteResponse \<times> 'w" where
  "Execute E s queries atomic w =
     (case Conn_Execute E (dbConn s) queries atomic True w of
        ((r, err), w1) \<Rightarrow> (\<lparr>Results = r, Time = 0, Err = err\<rparr>, w1))"

definition Query :: "'w env \<Rightarrow> SQLDB \<Rightarrow> string list \<Rightarrow> bool \<Rightarrow> 'w \<Rightarrow> SQLQueryResponse \<times> 'w" where
  "Query E s queries atomic w =
     (case Conn_Query E (dbConn s) queries atomic True w of
        ((r, err), w1) \<Rightarrow> (\<lparr>Rows = r, Time = 0, Err = err\<rparr>, w1))"

text \<open>
  \<^verbatim>\<open>Restore\<close> does not assign to any field of the store, so it returns the error and the
  world only. Deferred calls run last in, first out, and their own results are dropped:
  \<^verbatim>\<open>conn.Close()\<close> once it is registered, then \<^verbatim>\<open>f.Close()\<close>, then
  \<^verbatim>\<open>os.Remove(f.Name())\<close>. \<open>Restore_load\<close> is the part after the connection is made,
  \<open>Restore_file\<close> the part after the temporary file is made.
\<close>

definition Restore_load :: "'w env \<Rightarrow> SQLDB \<Rightarrow> Conn \<Rightarrow> 'w \<Rightarrow> error option \<times> 'w" where
  "Restore_load E s conn w =
     (case Conn_Load E (dbConn s) conn w of
        (Some err, w1) \<Rightarrow> (Some err, snd (Conn_Close E (Some conn) w1))
      | (None, w1) \<Rightarrow> (None, snd (Conn_Close E (Some conn) (stats_Add E numRestores 1 w1))))"

definition Restore_file :: "'w env \<Rightarrow> SQLDB \<Rightarrow> bytes \<Rightarrow> File \<Rightarrow> 'w \<Rightarrow> error option \<times> 'w" where
  "Restore_file E s src f w =
     (case File_Write E f src w of
        ((n, Some err), w1) \<Rightarrow> (Some err, w1)
      | ((n, None), w1) \<Rightarrow>
          (case sqlite_NewDB E (Name f) '''' False w1 of
             (Inl err, w2) \<Rightarrow> (Some err, w2)
           | (Inr d, w2) \<Rightarrow>
               (case DB_Connect E d w2 of
                  (Inl err, w3) \<Rightarrow> (Some err, w3)
                | (Inr conn, w3) \<Rightarrow> Restore_load E s conn w3)))"

definition Restore :: "'w env \<Rightarrow> SQLDB \<Rightarrow> bytes \<Rightarrow> 'w \<Rightarrow> error option \<times> 'w" where
  "Restore E s src w =
     (case ioutil_TempFile E '''' ''rqlilte-snap-'' w of
        (Inl err, w1) \<Rightarrow> (Some err, w1)
      | (Inr f, w1) \<Rightarrow>
          (case Restore_file E s src f w1 of
             (r, w2) \<Rightarrow> (r, snd (os_Remove E (Name f) (snd (File_Close E f w2))))))"

text \<open>
  \<^verbatim>\<open>Backup\<close> returns the error, the destination buffer and the world. The only
  \<^verbatim>\<open>os.Remove\<close> is the one right after the temporary file is closed; the one deferred call
  is \<^verbatim>\<open>of.Close()\<close>.
\<close>

definition Backup :: "'w env \<Rightarrow> SQLDB \<Rightarrow> bytes \<Rightarrow> 'w \<Rightarrow> error option \<times> bytes \<times> 'w" where
  "Backup E s dst w =
     (case ioutil_TempFile E '''' ''rqlilte-snap-'' w of
        (Inl err, w1) \<Rightarrow> (Some err, dst, w1)
      | (Inr f, w1) \<Rightarrow>
     (case File_Close E f w1 of
        (Some err, w2) \<Rightarrow> (Some err, dst, w2)
      | (None, w2) \<Rightarrow>
     (case sqlite_NewDB E (Name f) '''' False (snd (os_Remove E (Name f) w2)) of
        (Inl err, w4) \<Rightarrow> (Some err, dst, w4)
      | (Inr d, w4) \<Rightarrow>
     (case DB_Connect E d w4 of
        (Inl err, w5) \<Rightarrow> (Some err, dst, w5)
      | (Inr conn, w5) \<Rightarrow>
     (case Conn_Backup E (dbConn s) conn w5 of
        (Some err, w6) \<Rightarrow> (Some err, dst, w6)
      | (None, w6) \<Rightarrow>
     (case Conn_Close E (Some conn) w6 of
        (Some err, w7) \<Rightarrow> (Some err, dst, w7)
      | (None, w7) \<Rightarrow>
     (case os_Open E (Name f) w7 of
        (Inl err, w8) \<Rightarrow> (Some err, dst, w8)
      | (Inr out, w8) \<Rightarrow>
     (case io_Copy E dst out w8 of
        ((dst', n, err), w9) \<Rightarrow> (err, dst', snd (File_Close E out w9))))))))))"

section \<open>Consensus-driven endpoint: \<^verbatim>\<open>agent/consul/sqldb_endpoint.go\<close>\<close>

text \<open>
  What \<^verbatim>\<open>raftApply\<close> hands back as \<^verbatim>\<open>interface{}\<close> is told apart by the type switch:
  a pointer to a response (possibly a \<^verbatim>\<open>nil\<close> pointer), an \<^verbatim>\<open>error\<close>, or anything else
  (the untyped \<^verbatim>\<open>nil\<close> too). \<^verbatim>\<open>raftApply\<close> itself belongs to the server and is a
  parameter. The reply is an out-parameter: the function returns it with the error.
\<close>

datatype MessageType = SQLExecuteRequestType | SQLQueryRequestType

datatype applied =
    ExecuteResponsePtr "SQLExecuteResponse option"
  | QueryResponsePtr "SQLQueryResponse option"
  | ErrorValue error
  | OtherValue

definition execute ::
  "(MessageType \<Rightarrow> SQLExecuteRequest \<Rightarrow> applied \<times> error option) \<Rightarrow> SQLExecuteRequest
     \<Rightarrow> SQLExecuteResponse \<Rightarrow> (error option \<times> SQLExecuteResponse) go" where
  "execute raftApply args reply =
     (case raftApply SQLExecuteRequestType args of
        (f, Some err) \<Rightarrow> Returns (Some err, reply)
      | (f, None) \<Rightarrow>
          (case f of
             ExecuteResponsePtr (Some r) \<Rightarrow> Returns (SQLExecuteResponse.Err r, r)
           | ExecuteResponsePtr None \<Rightarrow> Panics ''nil pointer dereference''
           | ErrorValue r \<Rightarrow> Returns (Some r, reply)
           | _ \<Rightarrow> Panics ''unsupported type''))"

definition query ::
  "(MessageType \<Rightarrow> SQLQueryRequest \<Rightarrow> applied \<times> error option) \<Rightarrow> SQLQueryRequest
     \<Rightarrow> SQLQueryResponse \<Rightarrow> (error option \<times> SQLQueryResponse) go" where
  "query raftApply args reply =
     (case raftApply SQLQueryRequestType args of
        (f, Some err) \<Rightarrow> Returns (Some err, reply)
      | (f, None) \<Rightarrow>
          (case f of
             QueryResponsePtr (Some r) \<Rightarrow> Returns (SQLQueryResponse.Err r, r)
           | QueryResponsePtr None \<Rightarrow> Panics ''nil pointer dereference''
           | ErrorValue r \<Rightarrow> Returns (Some r, reply)
           | _ \<Rightarrow> Panics ''unsupported type''))"

definition SQL_Execute ::
  "(MessageType \<Rightarrow> SQLExecuteRequest \<Rightarrow> applied \<times> error option) \<Rightarrow> SQLExecuteRequest
     \<Rightarrow> SQLExecuteResponse \<Rightarrow> (error option \<times> SQLExecuteResponse) go" where
  "SQL_Execute raftApply args reply = execute raftApply args reply"

definition SQL_Query ::
  "(MessageType \<Rightarrow> SQLQueryRequest \<Rightarrow> applied \<times> error option) \<Rightarrow> SQLQueryRequest
     \<Rightarrow> SQLQueryResponse \<Rightarrow> (error option \<times> SQLQueryResponse) go" where
  "SQL_Query raftApply args reply = query raftApply args reply"

text \<open>
  The draft of the endpoint (the second, unnamed copy of the same file) reads the outcome
  from a future: \<^verbatim>\<open>Error()\<close> for the submission or commit failure, \<^verbatim>\<open>Response()\<close> for
  what the state machine returned. It maps raft's not-leader value to the server's own.
\<close>

record ApplyFuture =
  Error :: "error option"
  Response :: applied

definition execute_draft ::
  "(MessageType \<Rightarrow> SQLExecuteRequest \<Rightarrow> ApplyFuture) \<Rightarrow> SQLExecuteRequest
     \<Rightarrow> SQLExecuteResponse \<Rightarrow> (error option \<times> SQLExecuteResponse) go" where
  "execute_draft raftApply args reply =
     (let f = raftApply SQLExecuteRequestType args in
      case ApplyFuture.Error f of
        Some e \<Rightarrow>
          if e = raft_ErrNotLeader then Returns (Some ErrNotLeader, reply)
          else Returns (Some e, reply)
      | None \<Rightarrow>
          (case Response f of
             ExecuteResponsePtr (Some r) \<Rightarrow> Returns (SQLExecuteResponse.Err r, r)
           | ExecuteResponsePtr None \<Rightarrow> Panics ''nil pointer dereference''
           | ErrorValue r \<Rightarrow> Returns (Some r, reply)
           | _ \<Rightarrow> Panics ''unsupported type''))"

definition query_draft ::
  "(MessageType \<Rightarrow> SQLQueryRequest \<Rightarrow> ApplyFuture) \<Rightarrow> SQLQueryRequest
     \<Rightarrow> SQLQueryResponse \<Rightarrow> (error option \<times> SQLQueryResponse) go" where
  "query_draft raftApply args reply =
     (let f = raftApply SQLQueryRequestType args in
      case ApplyFuture.Error f of
        Some e \<Rightarrow>
          if e = raft_ErrNotLeader then Returns (Some ErrNotLeader, reply)
          else Returns (Some e, reply)
      | None \<Rightarrow>
          (case Response f of
             QueryResponsePtr (Some r) \<Rightarrow> Returns (SQLQueryResponse.Err r, r)
           | QueryResponsePtr None \<Rightarrow> Panics ''nil pointer dereference''
           | ErrorValue r \<Rightarrow> Returns (Some r, reply)
           | _ \<Rightarrow> Panics ''unsupported type''))"

section \<open>A reference environment\<close>

text \<open>
  To run the store on concrete inputs the parameters of \<open>env\<close> need values. The
  reference environment \<open>sim\<close> is a small deterministic stand-in for the operating
  system and the engine: the file system is a finite map from paths to bytes; an engine
  made by \<^verbatim>\<open>NewDB\<close> remembers its path, connection string and memory flag; the database
  image of a file-based engine is the content of its file, that of an in-memory engine a
  private buffer; handles and temporary names are numbered from a counter. The list given
  to \<open>sim\<close> names the calls that fail, each with the error \<open>injected\<close>.
\<close>

datatype extcall =
    Remove_call | TempFile_call | Open_call | Write_call | FClose_call | Copy_call
  | NewDB_call | Connect_call | CClose_call | Execute_call | Query_call
  | Load_call | Backup_call

record world =
  files :: "string \<rightharpoonup> bytes"
  dbs :: "DB \<rightharpoonup> string \<times> string \<times> bool"
  ram :: "DB \<rightharpoonup> bytes"
  conns :: "Conn \<rightharpoonup> DB"
  fresh :: nat

definition injected :: error where
  "injected = Errorf ''injected failure''"

definition image_of :: "world \<Rightarrow> Conn \<Rightarrow> bytes option" where
  "image_of w c =
     (case conns w c of
        None \<Rightarrow> None
      | Some d \<Rightarrow>
          (case dbs w d of
             None \<Rightarrow> None
           | Some (p, q, m) \<Rightarrow> if m then ram w d else files w p))"

definition put_image :: "world \<Rightarrow> Conn \<Rightarrow> bytes \<Rightarrow> world" where
  "put_image w c b =
     (case conns w c of
        None \<Rightarrow> w
      | Some d \<Rightarrow>
          (case dbs w d of
             None \<Rightarrow> w
           | Some (p, q, m) \<Rightarrow>
               if m then w\<lparr>ram := (ram w)(d \<mapsto> b)\<rparr> else w\<lparr>files := (files w)(p \<mapsto> b)\<rparr>))"

definition sim_Join :: "string \<Rightarrow> string \<Rightarrow> string" where
  "sim_Join dir name = dir @ ''/'' @ name"

definition sim_Remove :: "extcall list \<Rightarrow> string \<Rightarrow> world \<Rightarrow> error option \<times> world" where
  "sim_Remove fl p w =
     (if Remove_call \<in> set fl then (Some injected, w)
      else if files w p = None then (Some ErrNotExist, w)
      else (None, w\<lparr>files := (files w)(p := None)\<rparr>))"

definition sim_TempFile ::
  "extcall list \<Rightarrow> string \<Rightarrow> string \<Rightarrow> world \<Rightarrow> (error + File) \<times> world" where
  "sim_TempFile fl dir pat w =
     (if TempFile_call \<in> set fl then (Inl injected, w)
      else
        (let name = (if dir = [] then ''/tmp'' else dir) @ ''/'' @ pat
                      @ replicate (fresh w) (CHR ''0'')
         in (Inr \<lparr>Name = name, fd = fresh w\<rparr>,
             w\<lparr>files := (files w)(name \<mapsto> []), fresh := Suc (fresh w)\<rparr>)))"

definition sim_Open :: "extcall list \<Rightarrow> string \<Rightarrow> world \<Rightarrow> (error + File) \<times> world" where
  "sim_Open fl p w =
     (if Open_call \<in> set fl then (Inl injected, w)
      else if files w p = None then (Inl ErrNotExist, w)
      else (Inr \<lparr>Name = p, fd = fresh w\<rparr>, w\<lparr>fresh := Suc (fresh w)\<rparr>))"

definition sim_Write ::
  "extcall list \<Rightarrow> File \<Rightarrow> bytes \<Rightarrow> world \<Rightarrow> (nat \<times> error option) \<times> world" where
  "sim_Write fl f b w =
     (if Write_call \<in> set fl then ((0, Some injected), w)
      else
        ((length b, None),
         w\<lparr>files := (files w)(Name f \<mapsto>
              (case files w (Name f) of None \<Rightarrow> b | Some old \<Rightarrow> old @ b))\<rparr>))"

definition sim_FClose :: "extcall list \<Rightarrow> File \<Rightarrow> world \<Rightarrow> error option \<times> world" where
  "sim_FClose fl f w = (if FClose_call \<in> set fl then (Some injected, w) else (None, w))"

definition sim_Copy ::
  "extcall list \<Rightarrow> bytes \<Rightarrow> File \<Rightarrow> world \<Rightarrow> (bytes \<times> nat \<times> error option) \<times> world" where
  "sim_Copy fl dst f w =
     (if Copy_call \<in> set fl then ((dst, 0, Some injected), w)
      else
        (case files w (Name f) of
           None \<Rightarrow> ((dst, 0, Some ErrNotExist), w)
         | Some b \<Rightarrow> ((dst @ b, length b, None), w)))"

definition sim_NewDB ::
  "extcall list \<Rightarrow> string \<Rightarrow> string \<Rightarrow> bool \<Rightarrow> world \<Rightarrow> (error + DB) \<times> world" where
  "sim_NewDB fl p q m w =
     (if NewDB_call \<in> set fl then (Inl injected, w)
      else
        (Inr (fresh w),
         (if m then w\<lparr>ram := (ram w)(fresh w \<mapsto> [])\<rparr>
          else w\<lparr>files := (files w)(p \<mapsto> (case files w p of None \<Rightarrow> [] | Some b \<Rightarrow> b))\<rparr>)
           \<lparr>dbs := (dbs w)(fresh w \<mapsto> (p, q, m)), fresh := Suc (fresh w)\<rparr>))"

definition sim_Connect :: "extcall list \<Rightarrow> DB \<Rightarrow> world \<Rightarrow> (error + Conn) \<times> world" where
  "sim_Connect fl d w =
     (if Connect_call \<in> set fl then (Inl injected, w)
      else (Inr (fresh w), w\<lparr>conns := (conns w)(fresh w \<mapsto> d), fresh := Suc (fresh w)\<rparr>))"

definition sim_CClose :: "extcall list \<Rightarrow> Conn option \<Rightarrow> world \<Rightarrow> error option \<times> world" where
  "sim_CClose fl c w =
     (if CClose_call \<in> set fl then (Some injected, w)
      else
        (case c of
           None \<Rightarrow> (None, w)
         | Some c' \<Rightarrow> (None, w\<lparr>conns := (conns w)(c' := None)\<rparr>)))"

definition sim_Execute ::
  "extcall list \<Rightarrow> Conn option \<Rightarrow> string list \<Rightarrow> bool \<Rightarrow> bool \<Rightarrow> world
     \<Rightarrow> (Result list \<times> error option) \<times> world" where
  "sim_Execute fl c qs atomic timings w =
     (if Execute_call \<in> set fl then (([], Some injected), w)
      else
        ((map (\<lambda>q. \<lparr>LastInsertID = 0, RowsAffected = 0,
                     Error = (if q = [] then ''empty statement'' else []), Time = 0\<rparr>) qs,
          None), w))"

definition sim_Query ::
  "extcall list \<Rightarrow> Conn option \<Rightarrow> string list \<Rightarrow> bool \<Rightarrow> bool \<Rightarrow> world
     \<Rightarrow> (Rows list \<times> error option) \<times> world" where
  "sim_Query fl c qs atomic timings w =
     (if Query_call \<in> set fl then (([], Some injected), w)
      else
        ((map (\<lambda>q. \<lparr>Columns = [], Types = [], Values = [],
                     Error = (if q = [] then ''empty statement'' else []), Time = 0\<rparr>) qs,
          None), w))"

definition sim_Load :: "extcall list \<Rightarrow> Conn option \<Rightarrow> Conn \<Rightarrow> world \<Rightarrow> error option \<times> world" where
  "sim_Load fl tgt src w =
     (if Load_call \<in> set fl then (Some injected, w)
      else
        (case tgt of
           None \<Rightarrow> (Some (Errorf ''no connection''), w)
         | Some t \<Rightarrow>
             (case image_of w src of
                None \<Rightarrow> (Some (Errorf ''no database''), w)
              | Some b \<Rightarrow> (None, put_image w t b))))"

definition sim_Backup :: "extcall list \<Rightarrow> Conn option \<Rightarrow> Conn \<Rightarrow> world \<Rightarrow> error option \<times> world" where
  "sim_Backup fl src dst w =
     (if Backup_call \<in> set fl then (Some injected, w)
      else
        (case src of
           None \<Rightarrow> (Some (Errorf ''no connection''), w)
         | Some c \<Rightarrow>
             (case image_of w c of
                None \<Rightarrow> (Some (Errorf ''no database''), w)
              | Some b \<Rightarrow> (None, put_image w dst b))))"

definition sim :: "extcall list \<Rightarrow> world env" where
  "sim fl =
     \<lparr>filepath_Join = sim_Join,
      os_Remove = sim_Remove fl,
      ioutil_TempFile = sim_TempFile fl,
      os_Open = sim_Open fl,
      File_Write = sim_Write fl,
      File_Close = sim_FClose fl,
      io_Copy = sim_Copy fl,
      sqlite_NewDB = sim_NewDB fl,
      DB_Connect = sim_Connect fl,
      Conn_Close = sim_CClose fl,
      Conn_Execute = sim_Execute fl,
      Conn_Query = sim_Query fl,
      Conn_Load = sim_Load fl,
      Conn_Backup = sim_Backup fl,
      stats_Add = (\<lambda>name delta w. w)\<rparr>"

text \<open>Concrete inputs: a data directory holding a stale database file, the store as
  \<^verbatim>\<open>NewSQLDB\<close> builds it before \<^verbatim>\<open>Open\<close>, and the open store with its world.\<close>

definition world0 :: world where
  "world0 = \<lparr>files = [''/data/db.sqlite'' \<mapsto> [1, 2, 3]], dbs = Map.empty, ram = Map.empty,
             conns = Map.empty, fresh = 0\<rparr>"

definition store0 :: SQLDB where
  "store0 = \<lparr>dbPath = ''/data/db.sqlite'', dsn = '''', memory = False,
             db = None, dbConn = None, closed = False\<rparr>"

definition store1 :: SQLDB where
  "store1 = store0\<lparr>db := Some 0, dbConn := Some 1\<rparr>"

definition world1 :: world where
  "world1 = \<lparr>files = [''/data/db.sqlite'' \<mapsto> []],
             dbs = [0 \<mapsto> (''/data/db.sqlite'', '''', False)], ram = Map.empty,
             conns = [1 \<mapsto> 0], fresh = 2\<rparr>"

text \<open>The store is fully open when both handles are set, fully closed when both are
  \<^verbatim>\<open>nil\<close>.\<close>

definition fully_open :: "SQLDB \<Rightarrow> bool" where
  "fully_open s = (db s \<noteq> None \<and> dbConn s \<noteq> None)"

definition fully_closed :: "SQLDB \<Rightarrow> bool" where
  "fully_closed s = (db s = None \<and> dbConn s = None)"

text \<open>Further \<^verbatim>\<open>Close\<close> calls, one per element of the list (its \<^verbatim>\<open>wait\<close> argument), with
  the errors they return.\<close>

fun Close_seq :: "'w env \<Rightarrow> bool list \<Rightarrow> SQLDB \<Rightarrow> 'w \<Rightarrow> error option list \<times> SQLDB \<times> 'w" where
  "Close_seq E [] s w = ([], s, w)"
| "Close_seq E (wait # ws) s w =
     (case Close E wait s w of
        (r, s1, w1) \<Rightarrow> (case Close_seq E ws s1 w1 of (rs, s2, w2) \<Rightarrow> (r # rs, s2, w2)))"

text \<open>The open store after statements have been applied: the database image is no longer
  empty.\<close>

definition world2 :: world where
  "world2 = world1\<lparr>files := [''/data/db.sqlite'' \<mapsto> [4, 5, 6]]\<rparr>"

text \<open>
  What \<^verbatim>\<open>Restore\<close> relies on in its environment, for an observation \<open>view\<close> of the
  live database (what statements run on \<^verbatim>\<open>s.dbConn\<close> can see): the temporary file is not
  the database file; creating, writing, closing and removing a file other than the database
  file, creating a file-based engine on such a file, connecting to an engine and closing a
  connection do not change the observation; and a \<^verbatim>\<open>Load\<close> into the live connection
  that returns an error has left the observation as it was (the engine's load replaces the
  contents atomically).
\<close>

definition Restore_isolated :: "'w env \<Rightarrow> SQLDB \<Rightarrow> ('w \<Rightarrow> 'v) \<Rightarrow> bool" where
  "Restore_isolated E s view =
     ((\<forall>w r w1. ioutil_TempFile E '''' ''rqlilte-snap-'' w = (r, w1) \<longrightarrow> view w1 = view w) \<and>
      (\<forall>w f w1. ioutil_TempFile E '''' ''rqlilte-snap-'' w = (Inr f, w1) \<longrightarrow> Name f \<noteq> dbPath s) \<and>
      (\<forall>f b w r w1. Name f \<noteq> dbPath s \<longrightarrow> File_Write E f b w = (r, w1) \<longrightarrow> view w1 = view w) \<and>
      (\<forall>f w r w1. Name f \<noteq> dbPath s \<longrightarrow> File_Close E f w = (r, w1) \<longrightarrow> view w1 = view w) \<and>
      (\<forall>p w r w1. p \<noteq> dbPath s \<longrightarrow> os_Remove E p w = (r, w1) \<longrightarrow> view w1 = view w) \<and>
      (\<forall>p w r w1. p \<noteq> dbPath s \<longrightarrow> sqlite_NewDB E p '''' False w = (r, w1) \<longrightarrow> view w1 = view w) \<and>
      (\<forall>d w r w1. DB_Connect E d w = (r, w1) \<longrightarrow> view w1 = view w) \<and>
      (\<forall>c w r w1. Conn_Close E (Some c) w = (r, w1) \<longrightarrow> view w1 = view w) \<and>
      (\<forall>c w err w1. Conn_Load E (dbConn s) c w = (Some err, w1) \<longrightarrow> view w1 = view w))"

text \<open>The observation used with the reference environment: the bytes of the database
  file.\<close>

definition live_image :: "world \<Rightarrow> bytes option" where
  "live_image w = files w ''/data/db.sqlite''"

text \<open>
  A \<^verbatim>\<open>raftApply\<close> on a single node: the entry commits at once and the state machine
  applies it with \<^verbatim>\<open>SQLDB.Execute\<close> (\<^verbatim>\<open>SQLDB.Query\<close>), whose pointer result is what comes
  back, with no submission or commit error.
\<close>

definition apply_Execute ::
  "'w env \<Rightarrow> SQLDB \<Rightarrow> 'w \<Rightarrow> MessageType \<Rightarrow> SQLExecuteRequest \<Rightarrow> applied \<times> error option" where
  "apply_Execute E s w t args =
     (ExecuteResponsePtr
        (Some (fst (Execute E s (SQLExecuteRequest.Queries args)
                      (SQLExecuteRequest.Atomic args) w))), None)"

definition apply_Query ::
  "'w env \<Rightarrow> SQLDB \<Rightarrow> 'w \<Rightarrow> MessageType \<Rightarrow> SQLQueryRequest \<Rightarrow> applied \<times> error option" where
  "apply_Query E s w t args =
     (QueryResponsePtr
        (Some (fst (Query E s (SQLQueryRequest.Queries args)
                      (SQLQueryRequest.Atomic args) w))), None)"

definition request0 :: SQLExecuteRequest where
  "request0 = \<lparr>Queries = [''INSERT INTO t VALUES (1)'', ''''], Timings = False,
               Atomic = False\<rparr>"

definition reply0 :: SQLExecuteResponse where
  "reply0 = \<lparr>Results = [], Time = 0, Err = None\<rparr>"

definition query0 :: SQLQueryRequest where
  "query0 = \<lparr>SQLQueryRequest.Queries = [''SELECT * FROM t''],
             SQLQueryRequest.Timings = False, SQLQueryRequest.Atomic = False, Lvl = Weak\<rparr>"

definition qreply0 :: SQLQueryResponse where
  "qreply0 = \<lparr>Rows = [], Time = 0, Err = None\<rparr>"

text \<open>The response to \<open>request0\<close> when its second, empty statement fails on its own.\<close>

definition response0 :: SQLExecuteResponse where
  "response0 =
     \<lparr>Results = [\<lparr>LastInsertID = 0, RowsAffected = 0, Error = '''', Time = 0\<rparr>,
                 \<lparr>LastInsertID = 0, RowsAffected = 0, Error = ''empty statement'',
                   Time = 0\<rparr>],
      Time = 0, Err = None\<rparr>"

section \<open>Peer directory: properties\<close>

lemma apply_op_keeps_peer:
  assumes "spares p x"
    and "idToServer sl (ID p) = Some p"
    and "addressToServer sl (Addr p) = Some p"
  shows "idToServer (apply_op sl x) (ID p) = Some p \<and>
         addressToServer (apply_op sl x) (Addr p) = Some p"
proof (cases x)
  case (Add srv)
  with assms show ?thesis
    by (auto simp: spares_def AddServer_def)
next
  case (Remove srv)
  with assms show ?thesis
    by (auto simp: spares_def RemoveServer_def)
qed

lemma run_ops_keeps_peer:
  assumes "list_all (spares p) xs"
    and "idToServer sl (ID p) = Some p"
    and "addressToServer sl (Addr p) = Some p"
  shows "idToServer (run_ops sl xs) (ID p) = Some p \<and>
         addressToServer (run_ops sl xs) (Addr p) = Some p"
  using assms
proof (induction xs arbitrary: sl)
  case Nil
  then show ?case by simp
next
  case (Cons x xs)
  from Cons.prems have sp: "spares p x" and rest: "list_all (spares p) xs"
    by simp_all
  from apply_op_keeps_peer [OF sp Cons.prems(2) Cons.prems(3)]
  have "idToServer (apply_op sl x) (ID p) = Some p"
    and "addressToServer (apply_op sl x) (Addr p) = Some p"
    by simp_all
  from Cons.IH [OF rest this] show ?case by simp
qed

text \<open>
  C9, as amended. A peer added with AddServer is found under its identifier and under
  its address, and the two answers agree, after any later events that each either add the
  same peer again or concern a peer sharing neither its identifier nor its address.
  Right after RemoveServer of a peer, in any directory, the lookup of its identifier fails
  with the not-found error and the lookup of its address reports absence.
\<close>

theorem lookup_after_add_and_remove:
  assumes "list_all (spares p) xs"
  shows "ServerAddr (run_ops (AddServer sl p) xs) (ID p) = Inr (Addr p) \<and>
         Server (run_ops (AddServer sl p) xs) (Addr p) = Some p \<and>
         ServerAddr (RemoveServer sl' p) (ID p) =
           Inl (Errorf (''Could not find address for server id '' @ ID p)) \<and>
         Server (RemoveServer sl' p) (Addr p) = None"
proof -
  have "idToServer (AddServer sl p) (ID p) = Some p"
    and "addressToServer (AddServer sl p) (Addr p) = Some p"
    by (simp_all add: AddServer_def)
  from run_ops_keeps_peer [OF assms this]
  have "idToServer (run_ops (AddServer sl p) xs) (ID p) = Some p"
    and "addressToServer (run_ops (AddServer sl p) xs) (Addr p) = Some p"
    by simp_all
  then show ?thesis
    by (simp add: ServerAddr_def Server_def RemoveServer_def)
qed

theorem lookup_after_add_and_remove_witness:
  "list_all (spares peer_a) [Add peer_c, Add peer_a, Remove peer_c] \<and>
   ServerAddr (run_ops (AddServer NewServerLookup peer_a)
                 [Add peer_c, Add peer_a, Remove peer_c]) (ID peer_a) = Inr ''10.0.0.1:8300'' \<and>
   Server (run_ops (AddServer NewServerLookup peer_a)
                 [Add peer_c, Add peer_a, Remove peer_c]) ''10.0.0.1:8300'' = Some peer_a \<and>
   ServerAddr (RemoveServer (AddServer NewServerLookup peer_a) peer_a) ''node-a'' =
     Inl (Errorf ''Could not find address for server id node-a'') \<and>
   Server (RemoveServer (AddServer NewServerLookup peer_a) peer_a) ''10.0.0.1:8300'' = None"
proof -
  have h: "list_all (spares peer_a) [Add peer_c, Add peer_a, Remove peer_c]"
    by (simp add: spares_def peer_a_def peer_c_def)
  from lookup_after_add_and_remove [OF h, of NewServerLookup "AddServer NewServerLookup peer_a"]
  show ?thesis using h by (simp add: peer_a_def)
qed

text \<open>
  C9 as stated fails: \<open>peer_a\<close> is added and never removed, then \<open>peer_b\<close> joins from
  the same address under another identifier; the address index now answers \<open>peer_b\<close>.
\<close>

theorem lookup_shared_address_counterexample:
  "Server (AddServer (AddServer NewServerLookup peer_a) peer_b) (Addr peer_a) \<noteq> Some peer_a"
  by (simp add: Server_def AddServer_def NewServerLookup_def peer_a_def peer_b_def)

section \<open>Reference environment: evaluation rules\<close>

lemma sim_sel:
  "filepath_Join (sim fl) = sim_Join"
  "os_Remove (sim fl) = sim_Remove fl"
  "ioutil_TempFile (sim fl) = sim_TempFile fl"
  "os_Open (sim fl) = sim_Open fl"
  "File_Write (sim fl) = sim_Write fl"
  "File_Close (sim fl) = sim_FClose fl"
  "io_Copy (sim fl) = sim_Copy fl"
  "sqlite_NewDB (sim fl) = sim_NewDB fl"
  "DB_Connect (sim fl) = sim_Connect fl"
  "Conn_Close (sim fl) = sim_CClose fl"
  "Conn_Execute (sim fl) = sim_Execute fl"
  "Conn_Query (sim fl) = sim_Query fl"
  "Conn_Load (sim fl) = sim_Load fl"
  "Conn_Backup (sim fl) = sim_Backup fl"
  "stats_Add (sim fl) = (\<lambda>name delta w. w)"
  by (simp_all add: sim_def)

lemmas sim_ops = sim_Join_def sim_Remove_def sim_TempFile_def sim_Open_def sim_Write_def
  sim_FClose_def sim_Copy_def sim_NewDB_def sim_Connect_def sim_CClose_def sim_Execute_def
  sim_Query_def sim_Load_def sim_Backup_def image_of_def put_image_def injected_def

lemmas sim_inputs = world0_def world1_def world2_def store0_def store1_def

section \<open>Replicated store: life cycle\<close>

lemma Open_closed: "closed s \<Longrightarrow> Open E s w = (Some ErrStoreInvalidState, s, w)"
  by (simp add: Open_def)

lemma Close_closed: "closed s \<Longrightarrow> Close E wait s w = (None, s, w)"
  by (simp add: Close_def)

lemma Close_marks_closed: "Close E wait s w = (r, s', w') \<Longrightarrow> closed s'"
  by (auto simp: Close_def split: if_splits prod.splits option.splits)

lemma Close_error_state:
  "Close E wait s w = (Some err, s', w') \<Longrightarrow> \<not> closed s \<and> s' = s\<lparr>closed := True\<rparr>"
  by (auto simp: Close_def split: if_splits prod.splits option.splits)

lemma Close_handles:
  "Close E wait s w = (r, s', w') \<Longrightarrow>
     (db s' = db s \<and> dbConn s' = dbConn s) \<or> (db s' = None \<and> dbConn s' = None)"
  by (auto simp: Close_def split: if_splits prod.splits option.splits)

lemma Open_success_handles:
  "Open E s w = (None, s', w') \<Longrightarrow> db s' \<noteq> None \<and> dbConn s' \<noteq> None"
  by (auto simp: Open_def split: if_splits prod.splits option.splits sum.splits)

lemma Open_error_state:
  "Open E s w = (Some err, s', w') \<Longrightarrow> s' = s \<or> (\<exists>d. s' = s\<lparr>db := Some d\<rparr>)"
  by (auto simp: Open_def split: if_splits prod.splits option.splits sum.splits)

lemma Close_seq_closed:
  "closed s \<Longrightarrow> Close_seq E ws s w = (replicate (length ws) None, s, w)"
  by (induction ws) (simp_all add: Close_closed)

text \<open>What \<^verbatim>\<open>Open\<close> does with the fields of the store it is called on: in memory mode one
  call of \<^verbatim>\<open>NewDB\<close> with the memory flag set and no file removed; otherwise the file at
  \<^verbatim>\<open>dbPath\<close> is removed first (its absence is not an error) and \<^verbatim>\<open>NewDB\<close> is called on
  that path with the store's connection string.\<close>

lemma Open_memory_calls:
  assumes "\<not> closed s" and "memory s"
    and "sqlite_NewDB E (dbPath s) (dsn s) True w = (Inr d, w1)"
    and "DB_Connect E d w1 = (Inr c, w2)"
  shows "Open E s w = (None, s\<lparr>db := Some d, dbConn := Some c\<rparr>, w2)"
  using assms by (simp add: Open_def)

lemma Open_file_calls:
  assumes "\<not> closed s" and "\<not> memory s"
    and "os_Remove E (dbPath s) w = (rm, w0)"
    and "rm = None \<or> rm = Some ErrNotExist"
    and "sqlite_NewDB E (dbPath s) (dsn s) False w0 = (Inr d, w1)"
    and "DB_Connect E d w1 = (Inr c, w2)"
  shows "Open E s w = (None, s\<lparr>db := Some d, dbConn := Some c\<rparr>, w2)"
  using assms by (auto simp: Open_def os_IsNotExist_def)

text \<open>The constructor passes neither its connection string nor its memory flag on.\<close>

lemma NewSQLDB_arguments_unused:
  "NewSQLDB E dir dsn1 memory1 w = NewSQLDB E dir dsn2 memory2 w"
  by (simp add: NewSQLDB_def)

text \<open>\<open>store1\<close> in \<open>world1\<close> is what \<^verbatim>\<open>NewSQLDB\<close> returns in the reference environment.\<close>

lemma NewSQLDB_sim_opens:
  "NewSQLDB (sim []) ''/data'' '''' False world0 = (Inr store1, world1)"
  by (simp add: NewSQLDB_def Open_def sim_sel sim_ops sim_inputs sqliteFile_def
      os_IsNotExist_def)

text \<open>
  C3, evaluated. A store is constructed with a connection string and with the memory flag
  set, in a data directory that holds a stale database file with bytes 1, 2, 3. The store
  that comes back has an empty connection string and the memory flag unset; the stale file
  has been removed and replaced by a fresh, empty one; the one engine created is file-based
  at that path with the empty connection string, and no in-memory image exists.
\<close>

theorem NewSQLDB_memory_flag_dropped:
  "fst (NewSQLDB (sim []) ''/data'' ''cache=shared'' True world0) =
     Inr \<lparr>dbPath = ''/data/db.sqlite'', dsn = '''', memory = False,
          db = Some 0, dbConn = Some 1, closed = False\<rparr> \<and>
   files (snd (NewSQLDB (sim []) ''/data'' ''cache=shared'' True world0)) ''/data/db.sqlite''
     = Some [] \<and>
   dbs (snd (NewSQLDB (sim []) ''/data'' ''cache=shared'' True world0)) 0
     = Some (''/data/db.sqlite'', '''', False) \<and>
   ram (snd (NewSQLDB (sim []) ''/data'' ''cache=shared'' True world0)) 0 = None"
  by (simp add: NewSQLDB_def Open_def sim_sel sim_ops sim_inputs sqliteFile_def
      os_IsNotExist_def)

text \<open>
  C4, as amended. Open on a store whose closed flag is set returns InvalidState and leaves
  the store and the world as they are. After any Close call has returned, with or without
  an error, the flag is set: Open then returns InvalidState and the store remains closed.
  (A store that is already open is not refused; see the counterexample.)
\<close>

theorem Open_after_Close_invalid:
  "(closed c \<longrightarrow> Open E c w = (Some ErrStoreInvalidState, c, w)) \<and>
   (Close E' wait s v = (r, s', v') \<longrightarrow>
      closed s' \<and> Open E s' w = (Some ErrStoreInvalidState, s', w))"
  by (auto simp: Open_closed dest: Close_marks_closed)

theorem Open_after_Close_invalid_witness:
  "closed (store0\<lparr>closed := True\<rparr>) \<and>
   Open (sim []) (store0\<lparr>closed := True\<rparr>) world0
     = (Some ErrStoreInvalidState, store0\<lparr>closed := True\<rparr>, world0) \<and>
   Close (sim []) True store1 world1
     = (None, store0\<lparr>closed := True\<rparr>, world1\<lparr>conns := Map.empty\<rparr>)"
proof -
  have c: "Close (sim []) True store1 world1
             = (None, store0\<lparr>closed := True\<rparr>, world1\<lparr>conns := Map.empty\<rparr>)"
    by (simp add: Close_def sim_sel sim_ops sim_inputs)
  have k: "closed (store0\<lparr>closed := True\<rparr>)" by simp
  from Open_after_Close_invalid [where c = "store0\<lparr>closed := True\<rparr>" and E = "sim []"
      and w = world0 and E' = "sim []" and wait = True and s = store1 and v = world1
      and r = None and s' = "store0\<lparr>closed := True\<rparr>"
      and v' = "world1\<lparr>conns := Map.empty\<rparr>"]
  show ?thesis using c k by simp
qed

text \<open>
  C4 as stated fails: \<open>store1\<close> is open (both handles set, not closed), and Open on it
  does not return InvalidState; it removes the database file and builds a second engine.
\<close>

theorem Open_on_open_store_counterexample:
  "fully_open store1 \<and> \<not> closed store1 \<and>
   Open (sim []) store1 world1 =
     (None, store1\<lparr>db := Some 2, dbConn := Some 3\<rparr>,
      world1\<lparr>dbs := [0 \<mapsto> (''/data/db.sqlite'', '''', False),
                      2 \<mapsto> (''/data/db.sqlite'', '''', False)],
             conns := [1 \<mapsto> 0, 3 \<mapsto> 2], fresh := 4\<rparr>)"
  by (simp add: Open_def sim_sel sim_ops sim_inputs fully_open_def os_IsNotExist_def)

text \<open>
  C5. After a Close that returned no error the store is closed, and every further Close,
  in whatever environment and with whatever wait argument, returns no error and changes
  neither the store nor the world; so does any sequence of further Close calls.
\<close>

theorem Close_idempotent:
  assumes "Close E wait s w = (None, s', w')"
  shows "closed s' \<and> Close E' wait' s' w'' = (None, s', w'') \<and>
         Close_seq E' ws s' w'' = (replicate (length ws) None, s', w'')"
proof -
  from assms have "closed s'" by (rule Close_marks_closed)
  then show ?thesis by (simp add: Close_closed Close_seq_closed)
qed

theorem Close_idempotent_witness:
  "Close (sim []) True store1 world1
     = (None, store0\<lparr>closed := True\<rparr>, world1\<lparr>conns := Map.empty\<rparr>) \<and>
   Close (sim [CClose_call]) False (store0\<lparr>closed := True\<rparr>) (world1\<lparr>conns := Map.empty\<rparr>)
     = (None, store0\<lparr>closed := True\<rparr>, world1\<lparr>conns := Map.empty\<rparr>) \<and>
   Close_seq (sim [CClose_call]) [True, False, True] (store0\<lparr>closed := True\<rparr>)
       (world1\<lparr>conns := Map.empty\<rparr>)
     = ([None, None, None], store0\<lparr>closed := True\<rparr>, world1\<lparr>conns := Map.empty\<rparr>)"
proof -
  have c: "Close (sim []) True store1 world1
             = (None, store0\<lparr>closed := True\<rparr>, world1\<lparr>conns := Map.empty\<rparr>)"
    by (simp add: Close_def sim_sel sim_ops sim_inputs)
  from Close_idempotent [OF c, of "sim [CClose_call]" False "world1\<lparr>conns := Map.empty\<rparr>"
      "[True, False, True]"]
  show ?thesis using c by (simp add: eval_nat_numeral)
qed

text \<open>
  C6, as amended. For a store that is fully open or fully closed before the call: after
  Close returns, with or without an error, it is fully open or fully closed; after Open
  returns no error it is fully open; after Open returns an error it is either unchanged
  or has only its engine handle replaced by a new engine (the engine was created and the
  connection failed), the connection handle keeping its former value.
\<close>

theorem handles_after_Open_and_Close:
  assumes "fully_open s \<or> fully_closed s"
  shows "(Close Ea wait s wa = (r, sa, va) \<longrightarrow> fully_open sa \<or> fully_closed sa) \<and>
         (Open Eb s wb = (None, sb, vb) \<longrightarrow> fully_open sb) \<and>
         (Open Ec s wc = (Some err, sc, vc) \<longrightarrow> sc = s \<or> (\<exists>d. sc = s\<lparr>db := Some d\<rparr>))"
proof (intro conjI impI)
  assume "Close Ea wait s wa = (r, sa, va)"
  from Close_handles [OF this] assms show "fully_open sa \<or> fully_closed sa"
    by (auto simp: fully_open_def fully_closed_def)
next
  assume "Open Eb s wb = (None, sb, vb)"
  from Open_success_handles [OF this] show "fully_open sb"
    by (simp add: fully_open_def)
next
  assume "Open Ec s wc = (Some err, sc, vc)"
  then show "sc = s \<or> (\<exists>d. sc = s\<lparr>db := Some d\<rparr>)" by (rule Open_error_state)
qed

theorem handles_after_Open_and_Close_witness:
  "fully_closed store0 \<and>
   Close (sim [CClose_call]) True store0 world0 = (Some injected, store0\<lparr>closed := True\<rparr>, world0) \<and>
   fully_closed (store0\<lparr>closed := True\<rparr>) \<and>
   Open (sim []) store0 world0 = (None, store1, world1) \<and>
   fully_open store1 \<and>
   Open (sim [NewDB_call]) store0 world0 = (Some injected, store0, world0\<lparr>files := Map.empty\<rparr>)"
proof -
  have h: "fully_open store0 \<or> fully_closed store0"
    by (simp add: fully_closed_def store0_def)
  have c: "Close (sim [CClose_call]) True store0 world0
             = (Some injected, store0\<lparr>closed := True\<rparr>, world0)"
    by (simp add: Close_def sim_sel sim_ops sim_inputs)
  have o: "Open (sim []) store0 world0 = (None, store1, world1)"
    by (simp add: Open_def sim_sel sim_ops sim_inputs os_IsNotExist_def)
  have e: "Open (sim [NewDB_call]) store0 world0
             = (Some injected, store0, world0\<lparr>files := Map.empty\<rparr>)"
    by (simp add: Open_def sim_sel sim_ops sim_inputs os_IsNotExist_def)
  have f: "fully_closed store0" "fully_closed (store0\<lparr>closed := True\<rparr>)"
    by (simp_all add: fully_closed_def store0_def)
  from handles_after_Open_and_Close [OF h, where Ea = "sim [CClose_call]" and wait = True
      and wa = world0 and r = "Some injected" and sa = "store0\<lparr>closed := True\<rparr>"
      and va = world0 and Eb = "sim []" and wb = world0 and sb = store1
      and vb = world1 and Ec = "sim [NewDB_call]" and wc = world0 and err = injected
      and sc = store0 and vc = "world0\<lparr>files := Map.empty\<rparr>"] c o
  have "fully_open store1" by simp
  with c o e f show ?thesis by simp
qed

text \<open>
  C6 as stated fails: Open on the fresh, fully closed store, in an environment where the
  engine is created and the connection is refused, returns the error and leaves the engine
  handle set and the connection handle \<^verbatim>\<open>nil\<close>.
\<close>

theorem Open_connect_failure_counterexample:
  "fully_closed store0 \<and>
   fst (Open (sim [Connect_call]) store0 world0) = Some injected \<and>
   db (fst (snd (Open (sim [Connect_call]) store0 world0))) = Some 0 \<and>
   dbConn (fst (snd (Open (sim [Connect_call]) store0 world0))) = None \<and>
   \<not> (fully_open (fst (snd (Open (sim [Connect_call]) store0 world0))) \<or>
      fully_closed (fst (snd (Open (sim [Connect_call]) store0 world0))))"
  by (simp add: Open_def sim_sel sim_ops sim_inputs fully_open_def fully_closed_def
      os_IsNotExist_def)

text \<open>
  C10. On an open store that has not been closed, if closing the utility connection
  returns an error, Close returns that error with the store marked closed and nothing else
  changed: a later Close returns no error and changes nothing, a later Open returns
  InvalidState and changes nothing, and the engine and connection handles are still set.
\<close>

theorem Close_failure_is_terminal:
  assumes "\<not> closed s"
    and "Conn_Close E (dbConn s) w = (Some err, w')"
    and "db s \<noteq> None" and "dbConn s \<noteq> None"
  shows "Close E wait s w = (Some err, s\<lparr>closed := True\<rparr>, w') \<and>
         Close E' wait' (s\<lparr>closed := True\<rparr>) w'' = (None, s\<lparr>closed := True\<rparr>, w'') \<and>
         Open E' (s\<lparr>closed := True\<rparr>) w'' = (Some ErrStoreInvalidState, s\<lparr>closed := True\<rparr>, w'') \<and>
         db (s\<lparr>closed := True\<rparr>) \<noteq> None \<and> dbConn (s\<lparr>closed := True\<rparr>) \<noteq> None"
  using assms by (simp add: Close_def Open_def)

theorem Close_failure_is_terminal_witness:
  "\<not> closed store1 \<and>
   Conn_Close (sim [CClose_call]) (dbConn store1) world1 = (Some injected, world1) \<and>
   Close (sim [CClose_call]) True store1 world1
     = (Some injected, store1\<lparr>closed := True\<rparr>, world1) \<and>
   Close (sim []) True (store1\<lparr>closed := True\<rparr>) world1
     = (None, store1\<lparr>closed := True\<rparr>, world1) \<and>
   Open (sim []) (store1\<lparr>closed := True\<rparr>) world1
     = (Some ErrStoreInvalidState, store1\<lparr>closed := True\<rparr>, world1) \<and>
   db (store1\<lparr>closed := True\<rparr>) = Some 0 \<and> dbConn (store1\<lparr>closed := True\<rparr>) = Some 1"
proof -
  have n: "\<not> closed store1" by (simp add: store1_def store0_def)
  have c: "Conn_Close (sim [CClose_call]) (dbConn store1) world1 = (Some injected, world1)"
    by (simp add: sim_sel sim_ops)
  have h: "db store1 \<noteq> None" "dbConn store1 \<noteq> None"
    by (simp_all add: store1_def)
  from Close_failure_is_terminal [OF n c h, of True "sim []" True world1]
  show ?thesis using n c by (simp add: store1_def)
qed

section \<open>Replicated store: snapshots\<close>

lemma iso_TempFile:
  "Restore_isolated E s view \<Longrightarrow> ioutil_TempFile E '''' ''rqlilte-snap-'' w = (r, w1) \<Longrightarrow>
     view w1 = view w"
  unfolding Restore_isolated_def by fast

lemma iso_TempFile_name:
  "Restore_isolated E s view \<Longrightarrow> ioutil_TempFile E '''' ''rqlilte-snap-'' w = (Inr f, w1) \<Longrightarrow>
     Name f \<noteq> dbPath s"
  unfolding Restore_isolated_def by fast

lemma iso_Write:
  "Restore_isolated E s view \<Longrightarrow> Name f \<noteq> dbPath s \<Longrightarrow> File_Write E f b w = (r, w1) \<Longrightarrow>
     view w1 = view w"
  unfolding Restore_isolated_def by fast

lemma iso_FClose:
  "Restore_isolated E s view \<Longrightarrow> Name f \<noteq> dbPath s \<Longrightarrow> File_Close E f w = (r, w1) \<Longrightarrow>
     view w1 = view w"
  unfolding Restore_isolated_def by fast

lemma iso_Remove:
  "Restore_isolated E s view \<Longrightarrow> p \<noteq> dbPath s \<Longrightarrow> os_Remove E p w = (r, w1) \<Longrightarrow>
     view w1 = view w"
  unfolding Restore_isolated_def by fast

lemma iso_NewDB:
  "Restore_isolated E s view \<Longrightarrow> p \<noteq> dbPath s \<Longrightarrow>
     sqlite_NewDB E p '''' False w = (r, w1) \<Longrightarrow> view w1 = view w"
  unfolding Restore_isolated_def by fast

lemma iso_Connect:
  "Restore_isolated E s view \<Longrightarrow> DB_Connect E d w = (r, w1) \<Longrightarrow> view w1 = view w"
  unfolding Restore_isolated_def by fast

lemma iso_CClose:
  "Restore_isolated E s view \<Longrightarrow> Conn_Close E (Some c) w = (r, w1) \<Longrightarrow> view w1 = view w"
  unfolding Restore_isolated_def by fast

lemma iso_Load:
  "Restore_isolated E s view \<Longrightarrow> Conn_Load E (dbConn s) c w = (Some err, w1) \<Longrightarrow>
     view w1 = view w"
  unfolding Restore_isolated_def by fast

text \<open>From the connection on: the only error is that of \<^verbatim>\<open>Load\<close>, followed by the
  deferred close of the temporary connection.\<close>

lemma Restore_load_keeps:
  assumes "Restore_isolated E s view"
    and "Restore_load E s conn w = (Some err, w')"
  shows "view w' = view w"
proof -
  from assms(2) obtain e w1 where l: "Conn_Load E (dbConn s) conn w = (Some e, w1)"
    and w': "w' = snd (Conn_Close E (Some conn) w1)"
    by (auto simp: Restore_load_def split: prod.splits option.splits)
  from iso_Load [OF assms(1) l] have "view w1 = view w" .
  moreover have "view (snd (Conn_Close E (Some conn) w1)) = view w1"
    by (rule iso_CClose [OF assms(1)]) (rule surjective_pairing)
  ultimately show ?thesis using w' by simp
qed

text \<open>From the temporary file on: one case for each place where the body returns.\<close>

lemma Restore_file_keeps:
  assumes iso: "Restore_isolated E s view"
    and nm: "Name f \<noteq> dbPath s"
    and run: "Restore_file E s src f w = (Some err, w')"
  shows "view w' = view w"
proof -
  obtain r1 w1 where wr: "File_Write E f src w = (r1, w1)" by (cases "File_Write E f src w")
  from iso_Write [OF iso nm wr] have v1: "view w1 = view w" .
  obtain r2 w2 where nd: "sqlite_NewDB E (Name f) '''' False w1 = (r2, w2)"
    by (cases "sqlite_NewDB E (Name f) '''' False w1")
  from iso_NewDB [OF iso nm nd] have v2: "view w2 = view w1" .
  show ?thesis
  proof (cases "snd r1")
    case (Some e)
    with run wr have "w' = w1"
      by (auto simp: Restore_file_def split: prod.splits)
    with v1 show ?thesis by simp
  next
    case None
    note r1 = this
    show ?thesis
    proof (cases r2)
      case (Inl e)
      with run wr nd r1 have "w' = w2"
        by (auto simp: Restore_file_def split: prod.splits)
      with v1 v2 show ?thesis by simp
    next
      case (Inr d)
      note r2 = this
      obtain r3 w3 where cn: "DB_Connect E d w2 = (r3, w3)" by (cases "DB_Connect E d w2")
      from iso_Connect [OF iso cn] have v3: "view w3 = view w2" .
      show ?thesis
      proof (cases r3)
        case (Inl e)
        with run wr nd r1 r2 cn have "w' = w3"
          by (auto simp: Restore_file_def split: prod.splits)
        with v1 v2 v3 show ?thesis by simp
      next
        case (Inr conn)
        with run wr nd r1 r2 cn have "Restore_load E s conn w3 = (Some err, w')"
          by (auto simp: Restore_file_def split: prod.splits)
        from Restore_load_keeps [OF iso this] v1 v2 v3 show ?thesis by simp
      qed
    qed
  qed
qed

lemma sim_isolated: "Restore_isolated (sim fl) store1 live_image"
  unfolding Restore_isolated_def
  apply (intro conjI allI impI)
          apply (auto simp: sim_sel sim_ops live_image_def store1_def store0_def Let_def
      split: if_splits option.splits prod.splits)
  done

text \<open>
  C1. Restore assigns to no field of the store. Whenever it returns an error, be it from
  creating the temporary file, writing it, opening the engine on it, connecting, or Load,
  every observation of the live database is what it was before the call, in every
  environment that keeps the temporary file and engine apart from the live database and
  whose Load leaves the contents alone when it fails (\<open>Restore_isolated\<close>). The
  observation is arbitrary, so this holds for the answer of any later Execute or Query
  that is determined by such an observation.
\<close>

theorem Restore_error_keeps_live_state:
  assumes iso: "Restore_isolated E s view"
    and run: "Restore E s src w = (Some err, w')"
  shows "view w' = view w"
proof -
  obtain r0 w0 where tf: "ioutil_TempFile E '''' ''rqlilte-snap-'' w = (r0, w0)"
    by (cases "ioutil_TempFile E '''' ''rqlilte-snap-'' w")
  from iso_TempFile [OF iso tf] have v0: "view w0 = view w" .
  show ?thesis
  proof (cases r0)
    case (Inl e)
    with run tf have "w' = w0" by (simp add: Restore_def)
    with v0 show ?thesis by simp
  next
    case (Inr f)
    with iso_TempFile_name [OF iso] tf have nm: "Name f \<noteq> dbPath s" by simp
    obtain r1 w1 where rf: "Restore_file E s src f w0 = (r1, w1)"
      by (cases "Restore_file E s src f w0")
    obtain r2 w2 where fc: "File_Close E f w1 = (r2, w2)" by (cases "File_Close E f w1")
    obtain r3 w3 where rm: "os_Remove E (Name f) w2 = (r3, w3)"
      by (cases "os_Remove E (Name f) w2")
    from run tf Inr rf fc rm have r1: "r1 = Some err" and w': "w' = w3"
      by (simp_all add: Restore_def)
    from Restore_file_keeps [OF iso nm] rf r1 have v1: "view w1 = view w0" by simp
    from iso_FClose [OF iso nm fc] have v2: "view w2 = view w1" .
    from iso_Remove [OF iso nm rm] have v3: "view w3 = view w2" .
    from v0 v1 v2 v3 w' show ?thesis by simp
  qed
qed

theorem Restore_error_keeps_live_state_witness:
  "Restore_isolated (sim [Load_call]) store1 live_image \<and>
   live_image world2 = Some [4, 5, 6] \<and>
   fst (Restore (sim [TempFile_call]) store1 [9, 9] world2) = Some injected \<and>
   live_image (snd (Restore (sim [TempFile_call]) store1 [9, 9] world2)) = Some [4, 5, 6] \<and>
   fst (Restore (sim [Write_call]) store1 [9, 9] world2) = Some injected \<and>
   live_image (snd (Restore (sim [Write_call]) store1 [9, 9] world2)) = Some [4, 5, 6] \<and>
   fst (Restore (sim [NewDB_call]) store1 [9, 9] world2) = Some injected \<and>
   live_image (snd (Restore (sim [NewDB_call]) store1 [9, 9] world2)) = Some [4, 5, 6] \<and>
   fst (Restore (sim [Connect_call]) store1 [9, 9] world2) = Some injected \<and>
   live_image (snd (Restore (sim [Connect_call]) store1 [9, 9] world2)) = Some [4, 5, 6] \<and>
   fst (Restore (sim [Load_call]) store1 [9, 9] world2) = Some injected \<and>
   live_image (snd (Restore (sim [Load_call]) store1 [9, 9] world2)) = Some [4, 5, 6]"
proof -
  note ev = Restore_def Restore_file_def Restore_load_def sim_sel sim_ops sim_inputs Let_def
  have e: "fst (Restore (sim [TempFile_call]) store1 [9, 9] world2) = Some injected"
    "fst (Restore (sim [Write_call]) store1 [9, 9] world2) = Some injected"
    "fst (Restore (sim [NewDB_call]) store1 [9, 9] world2) = Some injected"
    "fst (Restore (sim [Connect_call]) store1 [9, 9] world2) = Some injected"
    "fst (Restore (sim [Load_call]) store1 [9, 9] world2) = Some injected"
    by (simp_all add: ev)
  have before: "live_image world2 = Some [4, 5, 6]"
    by (simp add: live_image_def world2_def world1_def)
  have keep: "live_image (snd (Restore (sim fl) store1 [9, 9] world2)) = Some [4, 5, 6]"
    if "fst (Restore (sim fl) store1 [9, 9] world2) = Some injected" for fl
  proof -
    from that have "Restore (sim fl) store1 [9, 9] world2
        = (Some injected, snd (Restore (sim fl) store1 [9, 9] world2))"
      by (simp add: prod_eq_iff)
    from Restore_error_keeps_live_state [OF sim_isolated this] before show ?thesis by simp
  qed
  from e [THEN keep] e before sim_isolated [of "[Load_call]"] show ?thesis by blast
qed


text \<open>In the same environment a Restore that succeeds does replace the live image, and
  removes its temporary file.\<close>

lemma Restore_sim_success:
  "fst (Restore (sim []) store1 [9, 9] world2) = None \<and>
   live_image (snd (Restore (sim []) store1 [9, 9] world2)) = Some [9, 9] \<and>
   files (snd (Restore (sim []) store1 [9, 9] world2)) ''/tmp/rqlilte-snap-00'' = None"
  by (simp add: Restore_def Restore_file_def Restore_load_def sim_sel sim_ops sim_inputs
      Let_def live_image_def eval_nat_numeral)

text \<open>In any environment where a file that has just been opened exists, and where
  reading from a file and closing it remove no file, the temporary file is still there
  whenever Backup returns without error.\<close>

lemma Backup_success_leaves_file:
  assumes opened: "\<And>p w f w1. os_Open E p w = (Inr f, w1) \<Longrightarrow> present w1 p"
    and copied: "\<And>b f w r w1 p. io_Copy E b f w = (r, w1) \<Longrightarrow> present w p \<Longrightarrow> present w1 p"
    and closing: "\<And>f w r w1 p. File_Close E f w = (r, w1) \<Longrightarrow> present w p \<Longrightarrow> present w1 p"
    and run: "Backup E s dst w = (None, dst', w')"
  shows "\<exists>f w1. ioutil_TempFile E '''' ''rqlilte-snap-'' w = (Inr f, w1) \<and> present w' (Name f)"
proof -
  from run obtain f w1 where tf: "ioutil_TempFile E '''' ''rqlilte-snap-'' w = (Inr f, w1)"
    by (auto simp: Backup_def split: prod.splits sum.splits)
  from run tf obtain w7 out w8 where op: "os_Open E (Name f) w7 = (Inr out, w8)"
    and fin: "w' = snd (File_Close E out (snd (io_Copy E dst out w8)))"
    by (auto simp: Backup_def split: prod.splits sum.splits option.splits)
  from opened [OF op] have "present w8 (Name f)" .
  then have "present (snd (io_Copy E dst out w8)) (Name f)"
    by (rule copied [OF surjective_pairing])
  then have "present (snd (File_Close E out (snd (io_Copy E dst out w8)))) (Name f)"
    by (rule closing [OF surjective_pairing])
  with tf fin show ?thesis by blast
qed

text \<open>
  C8, evaluated. Backup of the open store, whose image is 4, 5, 6, into an empty buffer:
  every step succeeds, the buffer receives the image, and the temporary file, which did
  not exist before the call, exists after it with the copied image. The one removal in
  Backup takes place before the engine is created on the temporary name; nothing removes
  the file the engine then writes.
\<close>

theorem Backup_leaves_temporary_file:
  "fst (Backup (sim []) store1 [] world2) = None \<and>
   fst (snd (Backup (sim []) store1 [] world2)) = [4, 5, 6] \<and>
   files world2 ''/tmp/rqlilte-snap-00'' = None \<and>
   files (snd (snd (Backup (sim []) store1 [] world2))) ''/tmp/rqlilte-snap-00''
     = Some [4, 5, 6]"
  by (simp add: Backup_def sim_sel sim_ops sim_inputs Let_def eval_nat_numeral)

section \<open>Consensus-driven endpoint: properties\<close>

text \<open>End to end on one node: the error the endpoint returns is the batch error of the
  engine's \<^verbatim>\<open>Execute\<close>, and the reply carries the engine's per-statement results.\<close>

lemma endpoint_over_store:
  "SQL_Execute (apply_Execute E s w) args reply =
     Returns (snd (fst (Conn_Execute E (dbConn s) (SQLExecuteRequest.Queries args)
                          (SQLExecuteRequest.Atomic args) True w)),
              \<lparr>Results = fst (fst (Conn_Execute E (dbConn s) (SQLExecuteRequest.Queries args)
                          (SQLExecuteRequest.Atomic args) True w)),
               Time = 0,
               Err = snd (fst (Conn_Execute E (dbConn s) (SQLExecuteRequest.Queries args)
                          (SQLExecuteRequest.Atomic args) True w))\<rparr>)"
  by (simp add: SQL_Execute_def execute_def apply_Execute_def Execute_def split: prod.splits)

text \<open>
  C2, as amended. When the entry commits and the store's response comes back, the endpoint
  copies the response into the reply and returns the response's \<^verbatim>\<open>Err\<close> field: no error
  when that field is \<^verbatim>\<open>nil\<close>, whatever error strings the per-statement results carry, and
  the error it holds otherwise. A submission or commit failure is returned as the error
  with the reply untouched, and so is an applied value that is itself an error. The same
  holds for Query, and with the outcome read from a future in the draft of the endpoint.
\<close>

theorem endpoint_returns_response_Err:
  "(raftApply SQLExecuteRequestType args = (ExecuteResponsePtr (Some r), None) \<longrightarrow>
      SQL_Execute raftApply args reply = Returns (SQLExecuteResponse.Err r, r)) \<and>
   (raftApply SQLExecuteRequestType args = (f, Some err) \<longrightarrow>
      SQL_Execute raftApply args reply = Returns (Some err, reply)) \<and>
   (raftApply SQLExecuteRequestType args = (ErrorValue err, None) \<longrightarrow>
      SQL_Execute raftApply args reply = Returns (Some err, reply)) \<and>
   (raftApplyQ SQLQueryRequestType qargs = (QueryResponsePtr (Some q), None) \<longrightarrow>
      SQL_Query raftApplyQ qargs qreply = Returns (SQLQueryResponse.Err q, q)) \<and>
   (raftApplyQ SQLQueryRequestType qargs = (g, Some err) \<longrightarrow>
      SQL_Query raftApplyQ qargs qreply = Returns (Some err, qreply)) \<and>
   (raftApplyQ SQLQueryRequestType qargs = (ErrorValue err, None) \<longrightarrow>
      SQL_Query raftApplyQ qargs qreply = Returns (Some err, qreply)) \<and>
   (raftApplyF SQLExecuteRequestType args
        = \<lparr>Error = None, Response = ExecuteResponsePtr (Some r)\<rparr> \<longrightarrow>
      execute_draft raftApplyF args reply = Returns (SQLExecuteResponse.Err r, r)) \<and>
   (raftApplyG SQLQueryRequestType qargs
        = \<lparr>Error = None, Response = QueryResponsePtr (Some q)\<rparr> \<longrightarrow>
      query_draft raftApplyG qargs qreply = Returns (SQLQueryResponse.Err q, q))"
  by (simp add: SQL_Execute_def SQL_Query_def execute_def query_def execute_draft_def
      query_draft_def)

theorem endpoint_returns_response_Err_witness:
  "apply_Execute (sim []) store1 world2 SQLExecuteRequestType request0
     = (ExecuteResponsePtr (Some response0), None) \<and>
   SQL_Execute (apply_Execute (sim []) store1 world2) request0 reply0
     = Returns (None, response0) \<and>
   SQL_Execute (\<lambda>t a. (OtherValue, Some ErrNotLeader)) request0 reply0
     = Returns (Some ErrNotLeader, reply0) \<and>
   SQL_Execute (\<lambda>t a. (ErrorValue injected, None)) request0 reply0
     = Returns (Some injected, reply0) \<and>
   SQL_Query (apply_Query (sim []) store1 world2) query0 qreply0
     = Returns (None, \<lparr>Rows = [\<lparr>Columns = [], Types = [], Values = [], Error = '''',
                                   Time = 0\<rparr>], Time = 0, Err = None\<rparr>) \<and>
   SQL_Query (\<lambda>t a. (OtherValue, Some ErrNotLeader)) query0 qreply0
     = Returns (Some ErrNotLeader, qreply0) \<and>
   SQL_Query (\<lambda>t a. (ErrorValue injected, None)) query0 qreply0
     = Returns (Some injected, qreply0) \<and>
   execute_draft (\<lambda>t a. \<lparr>Error = None, Response = ExecuteResponsePtr (Some response0)\<rparr>)
       request0 reply0
     = Returns (None, response0) \<and>
   query_draft (\<lambda>t a. \<lparr>Error = None, Response = QueryResponsePtr (Some qreply0)\<rparr>)
       query0 qreply0
     = Returns (None, qreply0)"
proof -
  have a: "apply_Execute (sim []) store1 world2 SQLExecuteRequestType request0
     = (ExecuteResponsePtr (Some response0), None)"
    by (simp add: apply_Execute_def Execute_def sim_sel sim_ops request0_def response0_def)
  have b: "apply_Query (sim []) store1 world2 SQLQueryRequestType query0
     = (QueryResponsePtr (Some \<lparr>Rows = [\<lparr>Columns = [], Types = [], Values = [],
                                           Error = '''', Time = 0\<rparr>],
                                 Time = 0, Err = None\<rparr>), None)"
    by (simp add: apply_Query_def Query_def sim_sel sim_ops query0_def)
  have e: "SQLExecuteResponse.Err response0 = None" "SQLQueryResponse.Err qreply0 = None"
    by (simp_all add: response0_def qreply0_def)
  note committed = endpoint_returns_response_Err
    [where raftApply = "apply_Execute (sim []) store1 world2" and args = request0
       and reply = reply0 and r = response0
       and raftApplyQ = "apply_Query (sim []) store1 world2" and qargs = query0
       and qreply = qreply0
       and raftApplyF = "\<lambda>t a. \<lparr>Error = None, Response = ExecuteResponsePtr (Some response0)\<rparr>"
       and raftApplyG = "\<lambda>t a. \<lparr>Error = None, Response = QueryResponsePtr (Some qreply0)\<rparr>"
       and q = qreply0]
  note rejected = endpoint_returns_response_Err
    [where raftApply = "\<lambda>t a. (OtherValue, Some ErrNotLeader)" and args = request0
       and reply = reply0 and f = OtherValue and err = ErrNotLeader
       and raftApplyQ = "\<lambda>t a. (OtherValue, Some ErrNotLeader)" and qargs = query0
       and qreply = qreply0 and g = OtherValue]
  note failed = endpoint_returns_response_Err
    [where raftApply = "\<lambda>t a. (ErrorValue injected, None)" and args = request0
       and reply = reply0 and err = injected
       and raftApplyQ = "\<lambda>t a. (ErrorValue injected, None)" and qargs = query0
       and qreply = qreply0]
  have c1: "SQL_Execute (apply_Execute (sim []) store1 world2) request0 reply0
              = Returns (None, response0)"
    and c7: "execute_draft
               (\<lambda>t a. \<lparr>Error = None, Response = ExecuteResponsePtr (Some response0)\<rparr>)
               request0 reply0 = Returns (None, response0)"
    and c8: "query_draft (\<lambda>t a. \<lparr>Error = None, Response = QueryResponsePtr (Some qreply0)\<rparr>)
               query0 qreply0 = Returns (None, qreply0)"
    using committed a e by simp_all
  have c2: "SQL_Execute (\<lambda>t a. (OtherValue, Some ErrNotLeader)) request0 reply0
              = Returns (Some ErrNotLeader, reply0)"
    and c5: "SQL_Query (\<lambda>t a. (OtherValue, Some ErrNotLeader)) query0 qreply0
              = Returns (Some ErrNotLeader, qreply0)"
    using rejected by simp_all
  have c3: "SQL_Execute (\<lambda>t a. (ErrorValue injected, None)) request0 reply0
              = Returns (Some injected, reply0)"
    and c6: "SQL_Query (\<lambda>t a. (ErrorValue injected, None)) query0 qreply0
              = Returns (Some injected, qreply0)"
    using failed by simp_all
  have c4: "SQL_Query (apply_Query (sim []) store1 world2) query0 qreply0
     = Returns (None, \<lparr>Rows = [\<lparr>Columns = [], Types = [], Values = [], Error = '''',
                                   Time = 0\<rparr>], Time = 0, Err = None\<rparr>)"
    using endpoint_returns_response_Err
      [where raftApplyQ = "apply_Query (sim []) store1 world2" and qargs = query0
         and qreply = qreply0
         and q = "\<lparr>Rows = [\<lparr>Columns = [], Types = [], Values = [], Error = '''',
                                Time = 0\<rparr>], Time = 0, Err = None\<rparr>"] b
    by simp
  from a c1 c2 c3 c4 c5 c6 c7 c8 show ?thesis by blast
qed

text \<open>
  C2 as stated fails: the entry commits and the store applies it, the engine reports a
  failure of the batch, \<^verbatim>\<open>SQLDB.Execute\<close> puts it in the response's \<^verbatim>\<open>Err\<close>, and the
  endpoint returns that error to its caller.
\<close>

theorem endpoint_error_counterexample:
  "apply_Execute (sim [Execute_call]) store1 world2 SQLExecuteRequestType request0
     = (ExecuteResponsePtr (Some \<lparr>Results = [], Time = 0, Err = Some injected\<rparr>), None) \<and>
   SQL_Execute (apply_Execute (sim [Execute_call]) store1 world2) request0 reply0
     = Returns (Some injected, \<lparr>Results = [], Time = 0, Err = Some injected\<rparr>)"
  by (simp add: SQL_Execute_def execute_def apply_Execute_def Execute_def sim_sel
      sim_Execute_def request0_def)

end
